theory Spec2Isabelle
  imports Main
begin

section \<open>Levels and lookup tables\<close>

text \<open>
  \<^verbatim>\<open>type Level int\<close> and \<^verbatim>\<open>type Color int\<close>: both are plain integers, so a value
  outside the named constants is well-typed. No arithmetic is done on them, only
  comparisons, so \<open>int\<close> models them without wrap-around.
\<close>

type_synonym Level = int
type_synonym Color = int

definition BLACK :: Color where "BLACK = 30"
definition RED :: Color where "RED = 31"
definition GREEN :: Color where "GREEN = 32"
definition YELLOW :: Color where "YELLOW = 33"
definition BLUE :: Color where "BLUE = 34"
definition MAGENTA :: Color where "MAGENTA = 35"
definition CYAN :: Color where "CYAN = 36"
definition WHITE :: Color where "WHITE = 37"

definition CRITICAL :: Level where "CRITICAL = 0"
definition ERROR :: Level where "ERROR = 1"
definition WARNING :: Level where "WARNING = 2"
definition NOTICE :: Level where "NOTICE = 3"
definition INFO :: Level where "INFO = 4"
definition DEBUG :: Level where "DEBUG = 5"

lemmas Level_defs = CRITICAL_def ERROR_def WARNING_def NOTICE_def INFO_def DEBUG_def
lemmas Color_defs = BLACK_def RED_def GREEN_def YELLOW_def BLUE_def MAGENTA_def
  CYAN_def WHITE_def

text \<open>The six named constants, in the order of their declaration.\<close>

definition named_levels :: "Level list" where
  "named_levels = [CRITICAL, ERROR, WARNING, NOTICE, INFO, DEBUG]"

text \<open>
  \<^verbatim>\<open>LevelNames\<close> and \<^verbatim>\<open>LevelColors\<close> are Go maps. Reading a Go map at a missing key
  gives the zero value of the element type: the empty string, respectively \<open>0\<close>.
\<close>

definition LevelNames :: "Level \<rightharpoonup> string" where
  "LevelNames = map_of
     [(CRITICAL, ''CRITICAL''), (ERROR, ''ERROR''), (WARNING, ''WARNING''),
      (NOTICE, ''NOTICE''), (INFO, ''INFO''), (DEBUG, ''DEBUG'')]"

definition LevelColors :: "Level \<rightharpoonup> Color" where
  "LevelColors = map_of
     [(CRITICAL, MAGENTA), (ERROR, RED), (WARNING, YELLOW),
      (NOTICE, GREEN), (INFO, WHITE), (DEBUG, CYAN)]"

definition LevelNames_index :: "Level \<Rightarrow> string" where
  "LevelNames_index l = (case LevelNames l of Some s \<Rightarrow> s | None \<Rightarrow> [])"

definition LevelColors_index :: "Level \<Rightarrow> Color" where
  "LevelColors_index l = (case LevelColors l of Some c \<Rightarrow> c | None \<Rightarrow> 0)"


section \<open>Records and the environment of a call\<close>

text \<open>
  A \<^verbatim>\<open>time.Time\<close> is kept as its civil fields, which is all the formatter reads.
  \<open>rest\<close> is what \<^verbatim>\<open>Time.String\<close> prints after the seconds (fraction, zone offset,
  zone name, monotonic reading), already rendered.
\<close>

record Time =
  year :: int
  month :: nat
  day :: nat
  hour :: nat
  minute :: nat
  second :: nat
  rest :: string

text \<open>The arguments of a call are \<^verbatim>\<open>[]interface{}\<close>; their type is left open as \<open>'a\<close>.\<close>

record 'a Record =
  Format :: string
  Args :: "'a list"
  LoggerName :: string
  Level :: Level
  Time :: Time
  Filename :: string
  Line :: int
  ProcessID :: int
  ProcessName :: string

text \<open>
  What \<^verbatim>\<open>logger.log\<close> reads from outside the program: the call stack, the clock, the
  process identifier and the first command-line argument.

  A frame is the file and line of the call that is pending in it. \<open>stack\<close> lists the
  frames of the callers of the function being run, innermost first: its head is the
  place where the current function was called. A function that calls another one
  pushes the line of that call.
\<close>

type_synonym Frame = "string \<times> int"

record Env =
  stack :: "Frame list"
  now :: Time
  Getpid :: int
  Args0 :: string

text \<open>The library's own source file, as it appears in a frame (directory left out).\<close>

definition lib_file :: string where
  "lib_file = ''logging.go''"

definition in_library :: "Frame \<Rightarrow> bool" where
  "in_library fr = (fst fr = lib_file)"

definition at_line :: "int \<Rightarrow> Env \<Rightarrow> Env" where
  "at_line n env = env\<lparr>stack := (lib_file, n) # stack env\<rparr>"

text \<open>
  \<^verbatim>\<open>runtime.Caller(skip)\<close>, asked from a function whose own pending line is the head of
  \<open>stk\<close>: \<open>skip = 0\<close> is that function itself, and \<open>ok\<close> is false (here \<open>None\<close>) beyond
  the bottom of the stack.
\<close>

definition runtime_Caller :: "nat \<Rightarrow> Frame list \<Rightarrow> Frame option" where
  "runtime_Caller skip stk = (if skip < length stk then Some (stk ! skip) else None)"

text \<open>\<^verbatim>\<open>strings.HasSuffix\<close>.\<close>

definition HasSuffix :: "string \<Rightarrow> string \<Rightarrow> bool" where
  "HasSuffix s suffix =
     (length suffix \<le> length s \<and> drop (length s - length suffix) s = suffix)"

text \<open>
  \<^verbatim>\<open>filepath.Base\<close> with \<open>/\<close> as the separator: trailing separators are dropped, then
  the last element is taken; an empty path gives a dot and a path of separators only
  gives one separator.
\<close>

definition filepath_Base :: "string \<Rightarrow> string" where
  "filepath_Base path =
     (if path = [] then ''.''
      else
        let stripped = rev (dropWhile (\<lambda>c. c = CHR ''/'') (rev path));
            last_elem = rev (takeWhile (\<lambda>c. c \<noteq> CHR ''/'') (rev stripped))
        in if last_elem = [] then ''/'' else last_elem)"

definition procName :: "Env \<Rightarrow> string" where
  "procName env = filepath_Base (Args0 env)"


section \<open>The logger\<close>

text \<open>
  \<^verbatim>\<open>Handler\<close> is an interface, so the logger sees its handler only through the calls
  it makes on it. A run of a logger method is the list of those calls, in order; the
  handler itself is a reference of type \<open>'h\<close>. Calls on the handler are taken to
  return.
\<close>

datatype ('h, 'a) call = Handle 'h "'a Record" | Close 'h

text \<open>How a function ends: it returns, or the process exits, or it panics.\<close>

datatype outcome = Returns | Exits int | Panics string

record 'h logger =
  logger_Name :: string
  logger_Level :: Level
  logger_Handler :: 'h

definition logger_Close :: "'h logger \<Rightarrow> ('h, 'a) call list" where
  "logger_Close l = [Close (logger_Handler l)]"

definition logger_SetLevel :: "Level \<Rightarrow> 'h logger \<Rightarrow> 'h logger" where
  "logger_SetLevel level l = l\<lparr>logger_Level := level\<rparr>"

definition logger_SetHandler :: "'h \<Rightarrow> 'h logger \<Rightarrow> 'h logger" where
  "logger_SetHandler b l = l\<lparr>logger_Handler := b\<rparr>"

text \<open>
  \<^verbatim>\<open>logger.log\<close>. \<open>env\<close> is the environment of its caller with the line of the call
  to \<^verbatim>\<open>l.log\<close> pushed; the call of \<^verbatim>\<open>runtime.Caller\<close> is on line 241.
\<close>

definition normalize_format :: "string \<Rightarrow> string" where
  "normalize_format format =
     (if \<not> HasSuffix format ''\<newline>'' then format @ ''\<newline>'' else format)"

definition build_Record :: "'h logger \<Rightarrow> Env \<Rightarrow> Level \<Rightarrow> string \<Rightarrow> 'a list \<Rightarrow> 'a Record" where
  "build_Record l env level format args =
     (let format' = normalize_format format;
          (file, line) =
            (case runtime_Caller 2 (stack (at_line 241 env)) of
               Some fr \<Rightarrow> fr
             | None \<Rightarrow> (''???'', 0))
      in \<lparr>Format = format', Args = args, LoggerName = logger_Name l, Level = level,
          Time = now env, Filename = file, Line = line,
          ProcessID = Getpid env, ProcessName = procName env\<rparr>)"

definition logger_log :: "'h logger \<Rightarrow> Env \<Rightarrow> Level \<Rightarrow> string \<Rightarrow> 'a list \<Rightarrow> ('h, 'a) call list" where
  "logger_log l env level format args =
     [Handle (logger_Handler l) (build_Record l env level format args)]"

definition logger_Critical :: "'h logger \<Rightarrow> Env \<Rightarrow> string \<Rightarrow> 'a list \<Rightarrow> ('h, 'a) call list" where
  "logger_Critical l env format args =
     (if logger_Level l \<ge> CRITICAL then logger_log l (at_line 201 env) CRITICAL format args
      else [])"

definition logger_Error :: "'h logger \<Rightarrow> Env \<Rightarrow> string \<Rightarrow> 'a list \<Rightarrow> ('h, 'a) call list" where
  "logger_Error l env format args =
     (if logger_Level l \<ge> ERROR then logger_log l (at_line 207 env) ERROR format args
      else [])"

definition logger_Warning :: "'h logger \<Rightarrow> Env \<Rightarrow> string \<Rightarrow> 'a list \<Rightarrow> ('h, 'a) call list" where
  "logger_Warning l env format args =
     (if logger_Level l \<ge> WARNING then logger_log l (at_line 213 env) WARNING format args
      else [])"

definition logger_Notice :: "'h logger \<Rightarrow> Env \<Rightarrow> string \<Rightarrow> 'a list \<Rightarrow> ('h, 'a) call list" where
  "logger_Notice l env format args =
     (if logger_Level l \<ge> NOTICE then logger_log l (at_line 219 env) NOTICE format args
      else [])"

definition logger_Info :: "'h logger \<Rightarrow> Env \<Rightarrow> string \<Rightarrow> 'a list \<Rightarrow> ('h, 'a) call list" where
  "logger_Info l env format args =
     (if logger_Level l \<ge> INFO then logger_log l (at_line 225 env) INFO format args
      else [])"

definition logger_Debug :: "'h logger \<Rightarrow> Env \<Rightarrow> string \<Rightarrow> 'a list \<Rightarrow> ('h, 'a) call list" where
  "logger_Debug l env format args =
     (if logger_Level l \<ge> DEBUG then logger_log l (at_line 231 env) DEBUG format args
      else [])"

text \<open>
  \<^verbatim>\<open>logger.Fatal\<close> and \<^verbatim>\<open>logger.Panic\<close>: the calls made on the handler, and how the
  method ends. \<open>Sprintf\<close> stands for \<^verbatim>\<open>fmt.Sprintf\<close> on the caller's template and
  arguments.
\<close>

definition logger_Fatal :: "'h logger \<Rightarrow> Env \<Rightarrow> string \<Rightarrow> 'a list \<Rightarrow> ('h, 'a) call list \<times> outcome" where
  "logger_Fatal l env format args =
     (logger_Critical l (at_line 188 env) format args @ logger_Close l, Exits 1)"

definition logger_Panic ::
  "(string \<Rightarrow> 'a list \<Rightarrow> string) \<Rightarrow> 'h logger \<Rightarrow> Env \<Rightarrow> string \<Rightarrow> 'a list
     \<Rightarrow> ('h, 'a) call list \<times> outcome" where
  "logger_Panic Sprintf l env format args =
     (logger_Critical l (at_line 194 env) format args @ logger_Close l,
      Panics (Sprintf format args))"

text \<open>The six severity-named methods with the level each one logs at.\<close>

definition severity_methods ::
  "(Level \<times> ('h logger \<Rightarrow> Env \<Rightarrow> string \<Rightarrow> 'a list \<Rightarrow> ('h, 'a) call list)) list" where
  "severity_methods =
     [(CRITICAL, logger_Critical), (ERROR, logger_Error), (WARNING, logger_Warning),
      (NOTICE, logger_Notice), (INFO, logger_Info), (DEBUG, logger_Debug)]"

text \<open>
  The package-level functions forward to \<^verbatim>\<open>DefaultLogger\<close>, a package variable; its
  current value is the first argument here.
\<close>

definition Fatal :: "'h logger \<Rightarrow> Env \<Rightarrow> string \<Rightarrow> 'a list \<Rightarrow> ('h, 'a) call list \<times> outcome" where
  "Fatal DefaultLogger env format args = logger_Fatal DefaultLogger (at_line 272 env) format args"

definition Panic ::
  "(string \<Rightarrow> 'a list \<Rightarrow> string) \<Rightarrow> 'h logger \<Rightarrow> Env \<Rightarrow> string \<Rightarrow> 'a list
     \<Rightarrow> ('h, 'a) call list \<times> outcome" where
  "Panic Sprintf DefaultLogger env format args =
     logger_Panic Sprintf DefaultLogger (at_line 276 env) format args"

definition Critical :: "'h logger \<Rightarrow> Env \<Rightarrow> string \<Rightarrow> 'a list \<Rightarrow> ('h, 'a) call list" where
  "Critical DefaultLogger env format args =
     logger_Critical DefaultLogger (at_line 280 env) format args"

definition Error :: "'h logger \<Rightarrow> Env \<Rightarrow> string \<Rightarrow> 'a list \<Rightarrow> ('h, 'a) call list" where
  "Error DefaultLogger env format args =
     logger_Error DefaultLogger (at_line 284 env) format args"

definition Warning :: "'h logger \<Rightarrow> Env \<Rightarrow> string \<Rightarrow> 'a list \<Rightarrow> ('h, 'a) call list" where
  "Warning DefaultLogger env format args =
     logger_Warning DefaultLogger (at_line 288 env) format args"

definition Notice :: "'h logger \<Rightarrow> Env \<Rightarrow> string \<Rightarrow> 'a list \<Rightarrow> ('h, 'a) call list" where
  "Notice DefaultLogger env format args =
     logger_Notice DefaultLogger (at_line 292 env) format args"

definition Info :: "'h logger \<Rightarrow> Env \<Rightarrow> string \<Rightarrow> 'a list \<Rightarrow> ('h, 'a) call list" where
  "Info DefaultLogger env format args =
     logger_Info DefaultLogger (at_line 296 env) format args"

definition Debug :: "'h logger \<Rightarrow> Env \<Rightarrow> string \<Rightarrow> 'a list \<Rightarrow> ('h, 'a) call list" where
  "Debug DefaultLogger env format args =
     logger_Debug DefaultLogger (at_line 300 env) format args"


section \<open>The default formatter\<close>

text \<open>
  Decimal digits, and \<^verbatim>\<open>appendInt\<close> of package \<^verbatim>\<open>time\<close>: a minus sign for a negative
  number, then the digits, padded with zeros on the left up to \<open>width\<close>.
\<close>

definition digit_char :: "nat \<Rightarrow> char" where
  "digit_char n = ''0123456789'' ! (n mod 10)"

fun digits :: "nat \<Rightarrow> string" where
  "digits n = (if n < 10 then [digit_char n] else digits (n div 10) @ [digit_char n])"

declare digits.simps [simp del]

definition appendInt :: "int \<Rightarrow> nat \<Rightarrow> string" where
  "appendInt x width =
     (let ds = digits (nat \<bar>x\<bar>)
      in (if x < 0 then ''-'' else []) @ replicate (width - length ds) (CHR ''0'') @ ds)"

text \<open>
  \<^verbatim>\<open>fmt.Sprint(rec.Time)\<close> is \<^verbatim>\<open>Time.String\<close>, which formats with the layout
  \<^verbatim>\<open>2006-01-02 15:04:05.999999999 -0700 MST\<close>: the year with at least four digits, the
  other fields with two.
\<close>

definition Time_String :: "Time \<Rightarrow> string" where
  "Time_String t =
     appendInt (year t) 4 @ ''-'' @ appendInt (int (month t)) 2 @ ''-''
       @ appendInt (int (day t)) 2 @ '' '' @ appendInt (int (hour t)) 2 @ '':''
       @ appendInt (int (minute t)) 2 @ '':'' @ appendInt (int (second t)) 2 @ rest t"

text \<open>The fields of a \<^verbatim>\<open>time.Time\<close> are always in their civil ranges.\<close>

definition valid_Time :: "Time \<Rightarrow> bool" where
  "valid_Time t =
     (1 \<le> month t \<and> month t \<le> 12 \<and> 1 \<le> day t \<and> day t \<le> 31
      \<and> hour t < 24 \<and> minute t < 60 \<and> second t < 60)"

text \<open>
  The part of \<^verbatim>\<open>fmt.Sprintf\<close> that the formatter's own format string uses: literal
  text and the verb \<open>%s\<close> on string operands, with an optional \<open>-\<close> flag and an
  optional decimal width. \<open>None\<close> stands for everything outside this part (another
  verb or flag, a missing or a surplus operand). A string narrower than the width is
  padded with spaces, on the right under the \<open>-\<close> flag and on the left otherwise; the
  width counts characters, which for the ASCII level names are bytes.
\<close>

definition padString :: "bool \<Rightarrow> nat \<Rightarrow> string \<Rightarrow> string" where
  "padString minus_flag wid s =
     (if minus_flag then s @ replicate (wid - length s) (CHR '' '')
      else replicate (wid - length s) (CHR '' '') @ s)"

definition is_digit :: "char \<Rightarrow> bool" where
  "is_digit c = (c \<in> set ''0123456789'')"

definition digit_val :: "char \<Rightarrow> nat" where
  "digit_val c = of_char c - 48"

datatype pstate = Text | Flags bool | Width bool nat

fun doPrintf :: "pstate \<Rightarrow> string \<Rightarrow> string list \<Rightarrow> string option" where
  "doPrintf Text [] a = (if a = [] then Some [] else None)"
| "doPrintf Text (c # cs) a =
     (if c = CHR ''%'' then doPrintf (Flags False) cs a
      else map_option ((#) c) (doPrintf Text cs a))"
| "doPrintf (Flags minus_flag) [] a = None"
| "doPrintf (Flags minus_flag) (c # cs) a =
     (if c = CHR ''-'' then doPrintf (Flags True) cs a
      else if c = CHR ''0'' then None
      else if is_digit c then doPrintf (Width minus_flag (digit_val c)) cs a
      else if c = CHR ''s'' then
        (case a of [] \<Rightarrow> None
         | x # xs \<Rightarrow> map_option ((@) (padString minus_flag 0 x)) (doPrintf Text cs xs))
      else None)"
| "doPrintf (Width minus_flag wid) [] a = None"
| "doPrintf (Width minus_flag wid) (c # cs) a =
     (if is_digit c then
        (if 10 * wid + digit_val c > 1000000 then None
         else doPrintf (Width minus_flag (10 * wid + digit_val c)) cs a)
      else if c = CHR ''s'' then
        (case a of [] \<Rightarrow> None
         | x # xs \<Rightarrow> map_option ((@) (padString minus_flag wid x)) (doPrintf Text cs xs))
      else None)"

definition Sprintf_strings :: "string \<Rightarrow> string list \<Rightarrow> string option" where
  "Sprintf_strings format a = doPrintf Text format a"

text \<open>
  \<^verbatim>\<open>defaultFormatter.Format\<close>. \<open>Sprintf\<close> stands for \<^verbatim>\<open>fmt.Sprintf\<close> on the record's
  template and arguments, whose operands are arbitrary values. The slice \<^verbatim>\<open>[:19]\<close> is
  within bounds, since \<open>Time_String\<close> is never shorter than 19 characters.
\<close>

definition defaultFormatter_Format :: "(string \<Rightarrow> 'a list \<Rightarrow> string) \<Rightarrow> 'a Record \<Rightarrow> string" where
  "defaultFormatter_Format Sprintf rec =
     the (Sprintf_strings ''%s [%s] %-8s %s''
            [take 19 (Time_String (Time rec)), LoggerName rec,
             LevelNames_index (Level rec), Sprintf (Format rec) (Args rec)])"

text \<open>
  The layout in the words of the specification: a timestamp \<open>YYYY-MM-DD HH:MM:SS\<close>, the
  logger's name in brackets, the level name left-justified in a field of width 8, and
  the message.
\<close>

definition two_digits :: "nat \<Rightarrow> string" where
  "two_digits n = [digit_char (n div 10), digit_char n]"

definition four_digits :: "nat \<Rightarrow> string" where
  "four_digits n =
     [digit_char (n div 1000), digit_char (n div 100), digit_char (n div 10), digit_char n]"

definition spec_timestamp :: "Time \<Rightarrow> string" where
  "spec_timestamp t =
     four_digits (nat (year t)) @ ''-'' @ two_digits (month t) @ ''-'' @ two_digits (day t)
       @ '' '' @ two_digits (hour t) @ '':'' @ two_digits (minute t) @ '':''
       @ two_digits (second t)"

definition left_justified :: "nat \<Rightarrow> string \<Rightarrow> string" where
  "left_justified n s = s @ replicate (n - length s) (CHR '' '')"

definition spec_line :: "(string \<Rightarrow> 'a list \<Rightarrow> string) \<Rightarrow> 'a Record \<Rightarrow> string" where
  "spec_line Sprintf rec =
     spec_timestamp (Time rec) @ '' ['' @ LoggerName rec @ ''] ''
       @ left_justified 8 (LevelNames_index (Level rec)) @ '' ''
       @ Sprintf (Format rec) (Args rec)"

text \<open>The number of newlines a string ends in.\<close>

definition trailing_newlines :: "string \<Rightarrow> nat" where
  "trailing_newlines s = length (takeWhile (\<lambda>c. c = CHR ''\<newline>'') (rev s))"


section \<open>Handlers\<close>

type_synonym 'a Formatter = "'a Record \<Rightarrow> string"

record 'a BaseHandler =
  BaseHandler_Level :: Level
  BaseHandler_Formatter :: "'a Formatter"

definition DefaultLevel :: Level where
  "DefaultLevel = INFO"

definition NewBaseHandler :: "'a Formatter \<Rightarrow> 'a BaseHandler" where
  "NewBaseHandler DefaultFormatter =
     \<lparr>BaseHandler_Level = DefaultLevel, BaseHandler_Formatter = DefaultFormatter\<rparr>"

definition BaseHandler_SetLevel :: "Level \<Rightarrow> 'a BaseHandler \<Rightarrow> 'a BaseHandler" where
  "BaseHandler_SetLevel l h = h\<lparr>BaseHandler_Level := l\<rparr>"

definition BaseHandler_SetFormatter :: "'a Formatter \<Rightarrow> 'a BaseHandler \<Rightarrow> 'a BaseHandler" where
  "BaseHandler_SetFormatter f h = h\<lparr>BaseHandler_Formatter := f\<rparr>"

definition FilterAndFormat :: "'a BaseHandler \<Rightarrow> 'a Record \<Rightarrow> string" where
  "FilterAndFormat h rec =
     (if BaseHandler_Level h \<ge> Level rec then BaseHandler_Formatter h rec else [])"

text \<open>
  \<^verbatim>\<open>WriterHandler\<close>. The \<^verbatim>\<open>io.Writer\<close> is a reference; a run of \<^verbatim>\<open>Handle\<close> is the list
  of the chunks it writes, each with the writer it goes to. Errors of a write are
  dropped by the source.
\<close>

type_synonym Writer = nat

record 'a WriterHandler =
  WriterHandler_Base :: "'a BaseHandler"
  WriterHandler_w :: Writer
  Colorize :: bool

definition NewWriterHandler :: "'a Formatter \<Rightarrow> Writer \<Rightarrow> 'a WriterHandler" where
  "NewWriterHandler DefaultFormatter w =
     \<lparr>WriterHandler_Base = NewBaseHandler DefaultFormatter, WriterHandler_w = w,
      Colorize = False\<rparr>"

definition NewLogger :: "'h \<Rightarrow> string \<Rightarrow> 'h logger" where
  "NewLogger DefaultHandler name =
     \<lparr>logger_Name = name, logger_Level = DefaultLevel, logger_Handler = DefaultHandler\<rparr>"

text \<open>\<^verbatim>\<open>fmt.Sprintf("\033[%dm", c)\<close>: the verb \<open>%d\<close> prints a sign and the decimal digits.\<close>

definition color_escape :: "Color \<Rightarrow> string" where
  "color_escape c = [CHR 0x1B] @ ''['' @ appendInt c 0 @ ''m''"

definition color_reset :: string where
  "color_reset = [CHR 0x1B] @ ''[0m''"

definition WriterHandler_Handle :: "'a WriterHandler \<Rightarrow> 'a Record \<Rightarrow> (Writer \<times> string) list" where
  "WriterHandler_Handle b rec =
     (let message = FilterAndFormat (WriterHandler_Base b) rec
      in if message = [] then []
         else
           (if Colorize b
            then [(WriterHandler_w b, color_escape (LevelColors_index (Level rec)))] else [])
           @ [(WriterHandler_w b, message)]
           @ (if Colorize b then [(WriterHandler_w b, color_reset)] else []))"

text \<open>
  \<^verbatim>\<open>SyslogHandler\<close>. The \<^verbatim>\<open>syslog.Writer\<close> is a reference; a run of \<^verbatim>\<open>Handle\<close> is the
  list of the send operations called on it, or a fault: calling the \<^verbatim>\<open>nil\<close> function
  value panics.
\<close>

datatype send = w_Crit | w_Err | w_Warning | w_Notice | w_Info | w_Debug

datatype fault = nil_func_call

record 'a SyslogHandler =
  SyslogHandler_Base :: "'a BaseHandler"
  SyslogHandler_w :: nat

definition severity_switch :: "Level \<Rightarrow> send option" where
  "severity_switch level =
     (if level = CRITICAL then Some w_Crit
      else if level = ERROR then Some w_Err
      else if level = WARNING then Some w_Warning
      else if level = NOTICE then Some w_Notice
      else if level = INFO then Some w_Info
      else if level = DEBUG then Some w_Debug
      else None)"

definition SyslogHandler_Handle ::
  "'a SyslogHandler \<Rightarrow> 'a Record \<Rightarrow> fault + (nat \<times> send \<times> string) list" where
  "SyslogHandler_Handle b rec =
     (let message = FilterAndFormat (SyslogHandler_Base b) rec
      in if message = [] then Inr []
         else
           (case severity_switch (Level rec) of
              None \<Rightarrow> Inl nil_func_call
            | Some fn \<Rightarrow> Inr [(SyslogHandler_w b, fn, message)]))"

text \<open>
  The three implementations of \<^verbatim>\<open>Handler\<close> in the package. A \<^verbatim>\<open>MultiHandler\<close> has one
  field, the list of its children. \<^verbatim>\<open>SetLevel\<close> and \<^verbatim>\<open>SetFormatter\<close> on the interface
  dispatch on the implementation; a handler is kept as a value, and a setter returns
  the handler after the call.
\<close>

datatype 'a Handler =
    Writer "'a WriterHandler"
  | Syslog "'a SyslogHandler"
  | MultiHandler (handlers: "'a Handler list")

definition NewMultiHandler :: "'a Handler list \<Rightarrow> 'a Handler" where
  "NewMultiHandler hs = MultiHandler hs"

text \<open>
  The package variables, as they stand after initialisation and \<^verbatim>\<open>init\<close> (which turns
  \<^verbatim>\<open>Colorize\<close> on for the two standard handlers). \<open>Sprintf\<close> stands for \<^verbatim>\<open>fmt.Sprintf\<close>
  as above; the streams \<^verbatim>\<open>os.Stdout\<close> and \<^verbatim>\<open>os.Stderr\<close> are the writers 1 and 2.
\<close>

definition os_Stdout :: Writer where "os_Stdout = 1"
definition os_Stderr :: Writer where "os_Stderr = 2"

definition DefaultFormatter :: "(string \<Rightarrow> 'a list \<Rightarrow> string) \<Rightarrow> 'a Formatter" where
  "DefaultFormatter Sprintf = defaultFormatter_Format Sprintf"

definition StdoutHandler :: "(string \<Rightarrow> 'a list \<Rightarrow> string) \<Rightarrow> 'a WriterHandler" where
  "StdoutHandler Sprintf = (NewWriterHandler (DefaultFormatter Sprintf) os_Stdout)\<lparr>Colorize := True\<rparr>"

definition StderrHandler :: "(string \<Rightarrow> 'a list \<Rightarrow> string) \<Rightarrow> 'a WriterHandler" where
  "StderrHandler Sprintf = (NewWriterHandler (DefaultFormatter Sprintf) os_Stderr)\<lparr>Colorize := True\<rparr>"

definition DefaultHandler :: "(string \<Rightarrow> 'a list \<Rightarrow> string) \<Rightarrow> 'a Handler" where
  "DefaultHandler Sprintf = Writer (StderrHandler Sprintf)"

definition DefaultLogger :: "(string \<Rightarrow> 'a list \<Rightarrow> string) \<Rightarrow> Env \<Rightarrow> 'a Handler logger" where
  "DefaultLogger Sprintf env = NewLogger (DefaultHandler Sprintf) (procName env)"

fun Handler_SetLevel :: "Level \<Rightarrow> 'a Handler \<Rightarrow> 'a Handler" where
  "Handler_SetLevel l (Writer b) =
     Writer (b\<lparr>WriterHandler_Base := BaseHandler_SetLevel l (WriterHandler_Base b)\<rparr>)"
| "Handler_SetLevel l (Syslog b) =
     Syslog (b\<lparr>SyslogHandler_Base := BaseHandler_SetLevel l (SyslogHandler_Base b)\<rparr>)"
| "Handler_SetLevel l (MultiHandler hs) = MultiHandler (map (Handler_SetLevel l) hs)"

fun Handler_SetFormatter :: "'a Formatter \<Rightarrow> 'a Handler \<Rightarrow> 'a Handler" where
  "Handler_SetFormatter f (Writer b) =
     Writer (b\<lparr>WriterHandler_Base := BaseHandler_SetFormatter f (WriterHandler_Base b)\<rparr>)"
| "Handler_SetFormatter f (Syslog b) =
     Syslog (b\<lparr>SyslogHandler_Base := BaseHandler_SetFormatter f (SyslogHandler_Base b)\<rparr>)"
| "Handler_SetFormatter f (MultiHandler hs) = MultiHandler (map (Handler_SetFormatter f) hs)"

text \<open>The loops of \<^verbatim>\<open>MultiHandler.SetLevel\<close> and \<^verbatim>\<open>MultiHandler.SetFormatter\<close>.\<close>

definition MultiHandler_SetLevel :: "Level \<Rightarrow> 'a Handler list \<Rightarrow> 'a Handler list" where
  "MultiHandler_SetLevel l hs = map (Handler_SetLevel l) hs"

definition MultiHandler_SetFormatter :: "'a Formatter \<Rightarrow> 'a Handler list \<Rightarrow> 'a Handler list" where
  "MultiHandler_SetFormatter f hs = map (Handler_SetFormatter f) hs"

text \<open>Every threshold, respectively formatter, held anywhere in a handler.\<close>

fun thresholds :: "'a Handler \<Rightarrow> Level list" where
  "thresholds (Writer b) = [BaseHandler_Level (WriterHandler_Base b)]"
| "thresholds (Syslog b) = [BaseHandler_Level (SyslogHandler_Base b)]"
| "thresholds (MultiHandler hs) = concat (map thresholds hs)"

fun formatters :: "'a Handler \<Rightarrow> 'a Formatter list" where
  "formatters (Writer b) = [BaseHandler_Formatter (WriterHandler_Base b)]"
| "formatters (Syslog b) = [BaseHandler_Formatter (SyslogHandler_Base b)]"
| "formatters (MultiHandler hs) = concat (map formatters hs)"

text \<open>A handler with its threshold and formatter blanked out: everything else it holds.\<close>

fun skeleton :: "'a Handler \<Rightarrow> unit Handler" where
  "skeleton (Writer b) =
     Writer \<lparr>WriterHandler_Base = \<lparr>BaseHandler_Level = 0, BaseHandler_Formatter = (\<lambda>_. [])\<rparr>,
             WriterHandler_w = WriterHandler_w b, Colorize = Colorize b\<rparr>"
| "skeleton (Syslog b) =
     Syslog \<lparr>SyslogHandler_Base = \<lparr>BaseHandler_Level = 0, BaseHandler_Formatter = (\<lambda>_. [])\<rparr>,
             SyslogHandler_w = SyslogHandler_w b\<rparr>"
| "skeleton (MultiHandler hs) = MultiHandler (map skeleton hs)"


section \<open>Tables of the specification\<close>

text \<open>The send operation of the transport that belongs to each named level.\<close>

definition level_send :: "(Level \<times> send) list" where
  "level_send = [(CRITICAL, w_Crit), (ERROR, w_Err), (WARNING, w_Warning),
                 (NOTICE, w_Notice), (INFO, w_Info), (DEBUG, w_Debug)]"

text \<open>The level name of each named level as it stands in a rendered line, eight wide.\<close>

definition level_fields :: "(Level \<times> string) list" where
  "level_fields = [(CRITICAL, ''CRITICAL''), (ERROR, ''ERROR   ''), (WARNING, ''WARNING ''),
                   (NOTICE, ''NOTICE  ''), (INFO, ''INFO    ''), (DEBUG, ''DEBUG   '')]"


section \<open>Concrete values\<close>

definition ex_time :: Time where
  "ex_time = \<lparr>year = 2014, month = 2, day = 28, hour = 18, minute = 15, second = 57,
              rest = '' +0000 UTC''\<rparr>"

definition ex_env :: Env where
  "ex_env = \<lparr>stack = [(''main.go'', 10), (''proc.go'', 283), (''asm_amd64.s'', 1700)],
             now = ex_time, Getpid = 4242, Args0 = ''/usr/local/bin/svc''\<rparr>"

definition ex_logger :: "nat logger" where
  "ex_logger = \<lparr>logger_Name = ''svc'', logger_Level = WARNING, logger_Handler = 7\<rparr>"

definition ex_Sprintf :: "string \<Rightarrow> string list \<Rightarrow> string" where
  "ex_Sprintf format a = (case Sprintf_strings format a of Some s \<Rightarrow> s | None \<Rightarrow> format)"

definition ex_record :: "string Record" where
  "ex_record = \<lparr>Format = ''up\<newline>'', Args = [], LoggerName = ''svc'', Level = DEBUG,
     Time = ex_time, Filename = ''main.go'', Line = 10, ProcessID = 4242,
     ProcessName = ''svc''\<rparr>"

definition ex_writer :: "string WriterHandler" where
  "ex_writer = (NewWriterHandler (defaultFormatter_Format ex_Sprintf) 2)\<lparr>Colorize := True\<rparr>"

definition ex_syslog :: "string SyslogHandler" where
  "ex_syslog = \<lparr>SyslogHandler_Base = NewBaseHandler (defaultFormatter_Format ex_Sprintf),
                 SyslogHandler_w = 3\<rparr>"

definition ex_children :: "string Handler list" where
  "ex_children =
     [Writer ex_writer,
      Syslog (ex_syslog\<lparr>SyslogHandler_Base :=
                BaseHandler_SetLevel DEBUG (SyslogHandler_Base ex_syslog)\<rparr>),
      MultiHandler [Writer (ex_writer\<lparr>WriterHandler_w := 1\<rparr>)]]"


section \<open>Basic facts\<close>

lemmas logger_method_defs = logger_Critical_def logger_Error_def logger_Warning_def
  logger_Notice_def logger_Info_def logger_Debug_def

lemma Level_build_Record [simp]: "Level (build_Record l env level format args) = level"
  by (simp add: build_Record_def Let_def split: prod.splits)

lemma Format_build_Record [simp]:
  "Format (build_Record l env level format args) = normalize_format format"
  by (simp add: build_Record_def Let_def split: prod.splits)

lemma named_levels_iff: "l \<in> set named_levels \<longleftrightarrow> 0 \<le> l \<and> l \<le> 5"
  by (auto simp: named_levels_def Level_defs)

text \<open>A call that is delivered carries the record built by \<^verbatim>\<open>logger.log\<close>.\<close>

lemma delivered_record:
  assumes "(B, m) \<in> set severity_methods"
    and "m l env format args = [Handle h rec]"
  shows "\<exists>n. rec = build_Record l (at_line n env) B format args \<and> h = logger_Handler l"
  using assms
  by (auto simp: severity_methods_def logger_method_defs logger_log_def split: if_splits)

text \<open>The record that the example logger builds when called from the example stack.\<close>

lemma ex_build:
  "build_Record ex_logger (at_line n ex_env) lv fmt (a :: string list) =
    \<lparr>Format = normalize_format fmt, Args = a, LoggerName = ''svc'', Level = lv,
     Time = ex_time, Filename = ''main.go'', Line = 10, ProcessID = 4242,
     ProcessName = ''svc''\<rparr>"
  by (simp add: build_Record_def ex_logger_def ex_env_def at_line_def runtime_Caller_def
      procName_def filepath_Base_def Let_def)

lemma trailing_newlines_0: "trailing_newlines s = 0 \<longleftrightarrow> \<not> HasSuffix s ''\<newline>''"
proof (cases s rule: rev_cases)
  case Nil
  then show ?thesis by (simp add: trailing_newlines_def HasSuffix_def)
next
  case (snoc ys y)
  then show ?thesis by (auto simp: trailing_newlines_def HasSuffix_def)
qed

lemma trailing_newlines_snoc:
  "trailing_newlines (s @ ''\<newline>'') = Suc (trailing_newlines s)"
  by (simp add: trailing_newlines_def)

subsection \<open>Decimal digits and the timestamp\<close>

lemma digit_char_0 [simp]: "digit_char 0 = CHR ''0''"
  by (simp add: digit_char_def)

lemma digits_1: "n < 10 \<Longrightarrow> digits n = [digit_char n]"
  by (subst digits.simps) simp

lemma digits_2: "10 \<le> n \<Longrightarrow> n < 100 \<Longrightarrow> digits n = [digit_char (n div 10), digit_char n]"
  by (subst digits.simps) (simp add: digits_1)

lemma digits_3: "100 \<le> n \<Longrightarrow> n < 1000 \<Longrightarrow>
    digits n = [digit_char (n div 100), digit_char (n div 10), digit_char n]"
  by (subst digits.simps) (simp add: digits_2 div_mult2_eq [symmetric])

lemma digits_4: "1000 \<le> n \<Longrightarrow> n < 10000 \<Longrightarrow>
    digits n = [digit_char (n div 1000), digit_char (n div 100), digit_char (n div 10),
                digit_char n]"
  by (subst digits.simps) (simp add: digits_3 div_mult2_eq [symmetric])

text \<open>Unfolding \<open>digits\<close> on a literal number only.\<close>

lemma digits_numeral:
  "digits (numeral k) =
     (if numeral k < (10::nat) then [digit_char (numeral k)]
      else digits (numeral k div 10) @ [digit_char (numeral k)])"
  "digits (Suc 0) = [digit_char (Suc 0)]" "digits 0 = [digit_char 0]"
  by (subst digits.simps, simp)+

lemma replicate_23: "replicate 2 x = [x, x]" "replicate 3 x = [x, x, x]"
  by (simp_all add: numeral_2_eq_2 numeral_3_eq_3)

lemma appendInt_2: "n < 100 \<Longrightarrow> appendInt (int n) 2 = two_digits n"
  by (cases "n < 10") (simp_all add: appendInt_def two_digits_def digits_1 digits_2)

lemma appendInt_4:
  assumes "0 \<le> y" "y \<le> 9999"
  shows "appendInt y 4 = four_digits (nat y)"
proof -
  define n where "n = nat y"
  have n: "n < 10000" "nat \<bar>y\<bar> = n" "\<not> y < 0"
    using assms by (simp_all add: n_def)
  consider "n < 10" | "10 \<le> n" "n < 100" | "100 \<le> n" "n < 1000" | "1000 \<le> n"
    by linarith
  then have "replicate (4 - length (digits n)) (CHR ''0'') @ digits n = four_digits n"
  proof cases
    case 1
    then show ?thesis by (simp add: digits_1 four_digits_def replicate_23)
  next
    case 2
    then show ?thesis by (simp add: digits_2 four_digits_def replicate_23)
  next
    case 3
    then show ?thesis by (simp add: digits_3 four_digits_def)
  next
    case 4
    then show ?thesis using n(1) by (simp add: digits_4 four_digits_def)
  qed
  then show ?thesis
    by (simp add: appendInt_def n Let_def flip: n_def)
qed

lemma length_spec_timestamp [simp]: "length (spec_timestamp t) = 19"
  by (simp add: spec_timestamp_def four_digits_def two_digits_def)

lemma Time_String_valid:
  assumes "valid_Time t" "0 \<le> year t" "year t \<le> 9999"
  shows "Time_String t = spec_timestamp t @ rest t"
  using assms
  by (simp add: Time_String_def spec_timestamp_def valid_Time_def appendInt_2 appendInt_4)

text \<open>The slice \<^verbatim>\<open>[:19]\<close> of the formatter never reads beyond the string.\<close>

lemma length_digits: "1 \<le> length (digits n)"
  by (subst digits.simps) simp

lemma length_appendInt: "w \<le> length (appendInt x w)"
  by (simp add: appendInt_def Let_def)

lemma length_Time_String: "19 \<le> length (Time_String t)"
proof -
  have "4 \<le> length (appendInt (year t) 4)" "2 \<le> length (appendInt (int (month t)) 2)"
    "2 \<le> length (appendInt (int (day t)) 2)" "2 \<le> length (appendInt (int (hour t)) 2)"
    "2 \<le> length (appendInt (int (minute t)) 2)" "2 \<le> length (appendInt (int (second t)) 2)"
    by (rule length_appendInt)+
  then show ?thesis by (simp add: Time_String_def)
qed

subsection \<open>The formatter's format string\<close>

lemma Sprintf_strings_layout:
  "Sprintf_strings ''%s [%s] %-8s %s'' [a, b, c, d] =
     Some (a @ '' ['' @ b @ ''] '' @ left_justified 8 c @ '' '' @ d)"
  by (simp add: Sprintf_strings_def is_digit_def digit_val_def padString_def
      left_justified_def)

lemma LevelNames_index_named:
  "(lv, nm) \<in> set level_fields \<Longrightarrow> left_justified 8 (LevelNames_index lv) = nm"
  by (auto simp: level_fields_def LevelNames_index_def LevelNames_def left_justified_def
      Level_defs numeral_eq_Suc)

lemma length_LevelNames_index: "length (LevelNames_index lv) \<le> 8"
  by (simp add: LevelNames_index_def LevelNames_def Level_defs)

lemma defaultFormatter_layout_aux:
  assumes "valid_Time (Time rec)"
    and "0 \<le> year (Time rec)" and "year (Time rec) \<le> 9999"
  shows "defaultFormatter_Format Sprintf rec = spec_line Sprintf rec"
proof -
  have "take 19 (Time_String (Time rec)) = spec_timestamp (Time rec)"
    using assms by (simp add: Time_String_valid)
  then show ?thesis
    by (simp add: defaultFormatter_Format_def Sprintf_strings_layout spec_line_def)
qed

lemma ex_Sprintf_plain: "ex_Sprintf ''up\<newline>'' [] = ''up\<newline>''"
  by (simp add: ex_Sprintf_def Sprintf_strings_def)

lemma spec_line_ex_record:
  "spec_line ex_Sprintf (ex_record\<lparr>Level := lv\<rparr>) =
     ''2014-02-28 18:15:57 [svc] '' @ left_justified 8 (LevelNames_index lv) @ '' up\<newline>''"
  by (simp add: spec_line_def spec_timestamp_def four_digits_def two_digits_def
      ex_record_def ex_time_def digit_char_def ex_Sprintf_plain)

lemma valid_ex_time: "valid_Time ex_time" "0 \<le> year ex_time" "year ex_time \<le> 9999"
  by (simp_all add: valid_Time_def ex_time_def)

subsection \<open>The severity switch\<close>

lemma severity_switch_named:
  "(lv, fn) \<in> set level_send \<Longrightarrow> severity_switch lv = Some fn"
  by (auto simp: level_send_def severity_switch_def Level_defs)

lemma severity_switch_None: "severity_switch lv = None \<longleftrightarrow> lv \<notin> set named_levels"
  by (simp add: severity_switch_def named_levels_def Level_defs)

subsection \<open>Setters on a tree of handlers\<close>

lemma thresholds_SetLevel:
  "thresholds (Handler_SetLevel L h) = replicate (length (thresholds h)) L"
proof (induction h)
  case (MultiHandler hs)
  then show ?case
    by (induction hs) (simp_all add: replicate_add)
qed (simp_all add: BaseHandler_SetLevel_def)

lemma formatters_SetLevel: "formatters (Handler_SetLevel L h) = formatters h"
proof (induction h)
  case (MultiHandler hs)
  then show ?case by (induction hs) simp_all
qed (simp_all add: BaseHandler_SetLevel_def)

lemma skeleton_SetLevel: "skeleton (Handler_SetLevel L h) = skeleton h"
  by (induction h) (simp_all add: BaseHandler_SetLevel_def)

lemma formatters_SetFormatter:
  "formatters (Handler_SetFormatter F h) = replicate (length (formatters h)) F"
proof (induction h)
  case (MultiHandler hs)
  then show ?case
    by (induction hs) (simp_all add: replicate_add)
qed (simp_all add: BaseHandler_SetFormatter_def)

lemma thresholds_SetFormatter: "thresholds (Handler_SetFormatter F h) = thresholds h"
proof (induction h)
  case (MultiHandler hs)
  then show ?case by (induction hs) simp_all
qed (simp_all add: BaseHandler_SetFormatter_def)

lemma skeleton_SetFormatter: "skeleton (Handler_SetFormatter F h) = skeleton h"
  by (induction h) (simp_all add: BaseHandler_SetFormatter_def)

lemma SetLevel_overwrites:
  "Handler_SetLevel L (Handler_SetLevel L' h) = Handler_SetLevel L h"
  by (induction h) (simp_all add: BaseHandler_SetLevel_def)

lemma SetFormatter_overwrites:
  "Handler_SetFormatter F (Handler_SetFormatter F' h) = Handler_SetFormatter F h"
  by (induction h) (simp_all add: BaseHandler_SetFormatter_def)

lemma cascade_length:
  "length (MultiHandler_SetLevel L hs) = length hs"
  "length (MultiHandler_SetFormatter F hs) = length hs"
  by (simp_all add: MultiHandler_SetLevel_def MultiHandler_SetFormatter_def)

lemma cascade_Writer:
  "\<forall>i < length hs. \<forall>b. hs ! i = Writer b \<longrightarrow>
      MultiHandler_SetLevel L hs ! i =
        Writer (b\<lparr>WriterHandler_Base := (WriterHandler_Base b)\<lparr>BaseHandler_Level := L\<rparr>\<rparr>)
      \<and> MultiHandler_SetFormatter F hs ! i =
        Writer (b\<lparr>WriterHandler_Base := (WriterHandler_Base b)\<lparr>BaseHandler_Formatter := F\<rparr>\<rparr>)"
  by (simp add: MultiHandler_SetLevel_def MultiHandler_SetFormatter_def
      BaseHandler_SetLevel_def BaseHandler_SetFormatter_def)

lemma cascade_Syslog:
  "\<forall>i < length hs. \<forall>b. hs ! i = Syslog b \<longrightarrow>
      MultiHandler_SetLevel L hs ! i =
        Syslog (b\<lparr>SyslogHandler_Base := (SyslogHandler_Base b)\<lparr>BaseHandler_Level := L\<rparr>\<rparr>)
      \<and> MultiHandler_SetFormatter F hs ! i =
        Syslog (b\<lparr>SyslogHandler_Base := (SyslogHandler_Base b)\<lparr>BaseHandler_Formatter := F\<rparr>\<rparr>)"
  by (simp add: MultiHandler_SetLevel_def MultiHandler_SetFormatter_def
      BaseHandler_SetLevel_def BaseHandler_SetFormatter_def)

lemma cascade_all_thresholds:
  "\<forall>h \<in> set (MultiHandler_SetLevel L hs). \<forall>t \<in> set (thresholds h). t = L"
  by (auto simp: MultiHandler_SetLevel_def thresholds_SetLevel)

lemma cascade_all_formatters:
  "\<forall>h \<in> set (MultiHandler_SetFormatter F hs). \<forall>f \<in> set (formatters h). f = F"
  by (auto simp: MultiHandler_SetFormatter_def formatters_SetFormatter)

lemma cascade_SetLevel_rest:
  "map formatters (MultiHandler_SetLevel L hs) = map formatters hs"
  "map skeleton (MultiHandler_SetLevel L hs) = map skeleton hs"
  by (simp_all add: MultiHandler_SetLevel_def formatters_SetLevel skeleton_SetLevel)

lemma cascade_SetFormatter_rest:
  "map thresholds (MultiHandler_SetFormatter F hs) = map thresholds hs"
  "map skeleton (MultiHandler_SetFormatter F hs) = map skeleton hs"
  by (simp_all add: MultiHandler_SetFormatter_def thresholds_SetFormatter
      skeleton_SetFormatter)

lemma cascade_overwrites:
  "MultiHandler_SetLevel L (MultiHandler_SetLevel L' hs) = MultiHandler_SetLevel L hs"
  "MultiHandler_SetFormatter F (MultiHandler_SetFormatter F' hs) = MultiHandler_SetFormatter F hs"
  by (simp_all add: MultiHandler_SetLevel_def MultiHandler_SetFormatter_def
      SetLevel_overwrites SetFormatter_overwrites)

lemma cascade_children_only:
  "Handler_SetLevel L (MultiHandler hs) = MultiHandler (MultiHandler_SetLevel L hs)"
  "Handler_SetFormatter F (MultiHandler hs) = MultiHandler (MultiHandler_SetFormatter F hs)"
  by (simp_all add: MultiHandler_SetLevel_def MultiHandler_SetFormatter_def)


section \<open>Level gating in the logger\<close>

text \<open>
  C1. For a logger whose threshold \<open>A\<close> is one of the six levels and for each of the six
  severity-named methods, logging at level \<open>B\<close>: the method makes exactly one call on
  the handler, \<open>Handle\<close> with a record of level \<open>B\<close>, if and only if \<open>B \<le> A\<close>; and when
  \<open>B \<le> A\<close> fails it makes no call at all, so no record is built.
\<close>

theorem level_gating:
  assumes "logger_Level l \<in> set named_levels"
    and "(B, m) \<in> set severity_methods"
  shows "((\<exists>rec. m l env format args = [Handle (logger_Handler l) rec] \<and> Level rec = B)
            \<longleftrightarrow> B \<le> logger_Level l)
         \<and> (\<not> B \<le> logger_Level l \<longrightarrow> m l env format args = [])"
  using assms
  by (auto simp: severity_methods_def named_levels_def logger_method_defs
      logger_log_def Level_defs)

text \<open>At threshold \<open>WARNING\<close>, an \<open>Error\<close> call is delivered and an \<open>Info\<close> call is not.\<close>

theorem level_gating_witness:
  "logger_Level ex_logger \<in> set named_levels
   \<and> (ERROR, logger_Error :: nat logger \<Rightarrow> Env \<Rightarrow> string \<Rightarrow> string list \<Rightarrow> _)
         \<in> set severity_methods
   \<and> (INFO, logger_Info :: nat logger \<Rightarrow> Env \<Rightarrow> string \<Rightarrow> string list \<Rightarrow> _)
         \<in> set severity_methods
   \<and> (\<exists>rec. logger_Error ex_logger ex_env ''disk full'' ([] :: string list)
              = [Handle 7 rec] \<and> Level rec = ERROR)
   \<and> logger_Info ex_logger ex_env ''started'' ([] :: string list) = []"
proof -
  have A: "logger_Level ex_logger \<in> set named_levels"
    by (simp add: ex_logger_def named_levels_def)
  have E: "(ERROR, logger_Error :: nat logger \<Rightarrow> Env \<Rightarrow> string \<Rightarrow> string list \<Rightarrow> _)
             \<in> set severity_methods"
    by (simp add: severity_methods_def)
  have I: "(INFO, logger_Info :: nat logger \<Rightarrow> Env \<Rightarrow> string \<Rightarrow> string list \<Rightarrow> _)
             \<in> set severity_methods"
    by (simp add: severity_methods_def)
  have L: "logger_Level ex_logger = 2" "logger_Handler ex_logger = 7"
    by (simp_all add: ex_logger_def WARNING_def)
  from level_gating [OF A E, of ex_env "''disk full''" "[]"]
  have "\<exists>rec. logger_Error ex_logger ex_env ''disk full'' ([] :: string list)
              = [Handle 7 rec] \<and> Level rec = ERROR"
    by (simp add: L ERROR_def)
  moreover from level_gating [OF A I, of ex_env "''started''" "[]"]
  have "logger_Info ex_logger ex_env ''started'' ([] :: string list) = []"
    by (simp add: L INFO_def)
  ultimately show ?thesis using A E I by blast
qed

text \<open>
  C9. For a logger whose threshold is one of the six named levels, \<open>CRITICAL\<close> is at
  most the threshold, so the guard of \<^verbatim>\<open>Critical\<close> holds and the call is delivered;
  hence \<^verbatim>\<open>Fatal\<close> and \<^verbatim>\<open>Panic\<close> hand a record of level \<open>CRITICAL\<close> to the handler, and
  then close it, whatever the threshold among the six.
\<close>

theorem critical_never_suppressed:
  assumes "logger_Level l \<in> set named_levels"
  shows "CRITICAL \<le> logger_Level l
     \<and> logger_Critical l env format args =
         [Handle (logger_Handler l) (build_Record l (at_line 201 env) CRITICAL format args)]
     \<and> (\<exists>rec. fst (logger_Fatal l env format args)
                 = [Handle (logger_Handler l) rec, Close (logger_Handler l)]
              \<and> Level rec = CRITICAL)
     \<and> (\<exists>rec. fst (logger_Panic Sprintf l env format args)
                 = [Handle (logger_Handler l) rec, Close (logger_Handler l)]
              \<and> Level rec = CRITICAL)"
  using assms
  by (simp add: named_levels_iff logger_Critical_def logger_log_def logger_Fatal_def
      logger_Panic_def logger_Close_def CRITICAL_def)

theorem critical_never_suppressed_witness:
  "logger_Level ex_logger \<in> set named_levels
   \<and> logger_Critical ex_logger ex_env ''boom'' ([] :: string list) =
       [Handle 7 \<lparr>Format = ''boom\<newline>'', Args = [], LoggerName = ''svc'', Level = CRITICAL,
          Time = ex_time, Filename = ''main.go'', Line = 10, ProcessID = 4242,
          ProcessName = ''svc''\<rparr>]"
proof -
  have A: "logger_Level ex_logger \<in> set named_levels"
    by (simp add: ex_logger_def named_levels_def)
  have N: "normalize_format ''boom'' = ''boom\<newline>''"
    by (simp add: normalize_format_def HasSuffix_def)
  from critical_never_suppressed [OF A, of ex_env "''boom''" "[] :: string list"]
  have "logger_Critical ex_logger ex_env ''boom'' ([] :: string list) =
         [Handle (logger_Handler ex_logger)
            (build_Record ex_logger (at_line 201 ex_env) CRITICAL ''boom'' [])]"
    by blast
  then show ?thesis using A by (simp add: ex_build N) (simp add: ex_logger_def)
qed


section \<open>Fatal\<close>

text \<open>
  C7, as amended. \<^verbatim>\<open>Fatal\<close>, as a method and as a package-level function, always ends
  by exit with status 1 and so never returns. When the logger's threshold is at least
  \<open>CRITICAL\<close>, as every named level is, the calls it makes on the handler before that
  are, in this order, \<open>Handle\<close> with the record of level \<open>CRITICAL\<close> built from the
  message and then \<open>Close\<close>. Below \<open>CRITICAL\<close> the guard of \<^verbatim>\<open>Critical\<close> suppresses the
  delivery and \<open>Close\<close> is the only call.
\<close>

theorem Fatal_order:
  "snd (logger_Fatal l env format args) = Exits 1
   \<and> snd (Fatal l env format args) = Exits 1
   \<and> (CRITICAL \<le> logger_Level l \<longrightarrow>
        fst (logger_Fatal l env format args) =
          [Handle (logger_Handler l)
             (build_Record l (at_line 201 (at_line 188 env)) CRITICAL format args),
           Close (logger_Handler l)]
        \<and> fst (Fatal l env format args) =
          [Handle (logger_Handler l)
             (build_Record l (at_line 201 (at_line 188 (at_line 272 env))) CRITICAL format args),
           Close (logger_Handler l)])
   \<and> (\<not> CRITICAL \<le> logger_Level l \<longrightarrow>
        fst (logger_Fatal l env format args) = [Close (logger_Handler l)]
        \<and> fst (Fatal l env format args) = [Close (logger_Handler l)])"
  by (simp add: logger_Fatal_def Fatal_def logger_Critical_def logger_log_def logger_Close_def)

theorem Fatal_order_witness:
  "CRITICAL \<le> logger_Level ex_logger
   \<and> logger_Fatal ex_logger ex_env ''boom'' ([] :: string list) =
       ([Handle 7 \<lparr>Format = ''boom\<newline>'', Args = [], LoggerName = ''svc'', Level = CRITICAL,
          Time = ex_time, Filename = ''logging.go'', Line = 188, ProcessID = 4242,
          ProcessName = ''svc''\<rparr>, Close 7], Exits 1)"
proof -
  have A: "CRITICAL \<le> logger_Level ex_logger"
    by (simp add: ex_logger_def Level_defs)
  have B: "build_Record ex_logger (at_line 201 (at_line 188 ex_env)) CRITICAL ''boom''
             ([] :: string list) =
           \<lparr>Format = ''boom\<newline>'', Args = [], LoggerName = ''svc'', Level = CRITICAL,
            Time = ex_time, Filename = ''logging.go'', Line = 188, ProcessID = 4242,
            ProcessName = ''svc''\<rparr>"
    by (simp add: build_Record_def ex_logger_def ex_env_def at_line_def runtime_Caller_def
        procName_def filepath_Base_def Let_def normalize_format_def HasSuffix_def lib_file_def)
  from Fatal_order [of ex_logger ex_env "''boom''" "[] :: string list"] A
  have "fst (logger_Fatal ex_logger ex_env ''boom'' ([] :: string list)) =
          [Handle (logger_Handler ex_logger)
             (build_Record ex_logger (at_line 201 (at_line 188 ex_env)) CRITICAL ''boom'' []),
           Close (logger_Handler ex_logger)]"
    and "snd (logger_Fatal ex_logger ex_env ''boom'' ([] :: string list)) = Exits 1"
    by blast+
  then have "logger_Fatal ex_logger ex_env ''boom'' ([] :: string list) =
      ([Handle (logger_Handler ex_logger)
             (build_Record ex_logger (at_line 201 (at_line 188 ex_env)) CRITICAL ''boom'' []),
           Close (logger_Handler ex_logger)], Exits 1)"
    by (simp add: prod_eq_iff)
  then show ?thesis using A by (simp add: B) (simp add: ex_logger_def)
qed

text \<open>
  With the threshold set to \<open>-1\<close>, \<^verbatim>\<open>Fatal\<close> closes the handler and exits without
  having handed it any record.
\<close>

theorem Fatal_below_CRITICAL_counterexample:
  "logger_Fatal (logger_SetLevel (- 1) ex_logger) ex_env ''boom'' ([] :: string list)
     = ([Close 7], Exits 1)"
  by (simp add: logger_Fatal_def logger_Critical_def logger_SetLevel_def ex_logger_def
      logger_Close_def CRITICAL_def)


section \<open>Newline normalization\<close>

text \<open>
  C4, as amended. The template stored in the record of a delivered call is the
  template passed, with a newline appended when it ends in none and unchanged
  otherwise. It therefore ends in as many newlines as the template passed, and in one
  when that ends in none: in exactly one whenever the template passed ends in at most
  one.
\<close>

theorem newline_normalization:
  assumes "(B, m) \<in> set severity_methods"
    and "m l env format args = [Handle h rec]"
  shows "Format rec = (if trailing_newlines format = 0 then format @ ''\<newline>'' else format)
         \<and> trailing_newlines (Format rec) = max 1 (trailing_newlines format)
         \<and> (trailing_newlines format \<le> 1 \<longrightarrow> trailing_newlines (Format rec) = 1)"
proof -
  from delivered_record [OF assms] obtain n
    where "rec = build_Record l (at_line n env) B format args" by blast
  then have F: "Format rec = normalize_format format" by simp
  show ?thesis
    unfolding F normalize_format_def
    using trailing_newlines_0 [of format] trailing_newlines_snoc [of format]
    by (cases "trailing_newlines format = 0") auto
qed

theorem newline_normalization_witness:
  "(ERROR, logger_Error :: nat logger \<Rightarrow> Env \<Rightarrow> string \<Rightarrow> string list \<Rightarrow> _)
      \<in> set severity_methods
   \<and> logger_Error ex_logger ex_env ''disk full'' ([] :: string list) =
       [Handle 7 (build_Record ex_logger (at_line 207 ex_env) ERROR ''disk full'' [])]
   \<and> trailing_newlines ''disk full'' = 0
   \<and> Format (build_Record ex_logger (at_line 207 ex_env) ERROR ''disk full''
               ([] :: string list)) = ''disk full\<newline>''
   \<and> trailing_newlines (Format (build_Record ex_logger (at_line 207 ex_env) ERROR
        ''disk full'' ([] :: string list))) = 1"
proof -
  have E: "(ERROR, logger_Error :: nat logger \<Rightarrow> Env \<Rightarrow> string \<Rightarrow> string list \<Rightarrow> _)
             \<in> set severity_methods"
    by (simp add: severity_methods_def)
  have D: "logger_Error ex_logger ex_env ''disk full'' ([] :: string list) =
       [Handle 7 (build_Record ex_logger (at_line 207 ex_env) ERROR ''disk full'' [])]"
    by (simp add: logger_Error_def logger_log_def ex_logger_def Level_defs)
  have Z: "trailing_newlines ''disk full'' = 0"
    by (simp add: trailing_newlines_def)
  have O: "trailing_newlines ''disk full\<newline>'' = 1"
    by (simp add: trailing_newlines_def)
  from newline_normalization [OF E D] Z E D O show ?thesis
    by simp
qed

text \<open>
  A template that ends in two newlines is stored as it is, and so ends in two.
\<close>

theorem newline_counterexample:
  "logger_Error ex_logger ex_env ''a\<newline>\<newline>'' ([] :: string list) =
     [Handle 7 \<lparr>Format = ''a\<newline>\<newline>'', Args = [], LoggerName = ''svc'', Level = ERROR,
        Time = ex_time, Filename = ''main.go'', Line = 10, ProcessID = 4242,
        ProcessName = ''svc''\<rparr>]
   \<and> trailing_newlines ''a\<newline>\<newline>'' = 2"
  by (simp add: logger_Error_def logger_log_def ex_build normalize_format_def HasSuffix_def
      trailing_newlines_def)
     (simp add: ex_logger_def Level_defs)


section \<open>The call site in the record\<close>

text \<open>
  A call of one of the six methods from user code records the place of that call:
  the frame two above \<^verbatim>\<open>logger.log\<close> is the caller of the method.
\<close>

lemma direct_call_site:
  assumes "(B, m) \<in> set severity_methods"
    and "m l env format args = [Handle h rec]"
    and "stack env = fr # frs"
  shows "(Filename rec, Line rec) = fr"
  using assms
  by (auto simp: severity_methods_def logger_method_defs logger_log_def build_Record_def
      at_line_def runtime_Caller_def Let_def split: if_splits prod.splits)

text \<open>
  C8. The record of a delivered call should carry the user's call site also when the
  call goes through a package-level function or through \<^verbatim>\<open>Fatal\<close>. The code does not
  do so. Called from \<open>main.go\<close> line 10 on the default logger, the package-level
  \<^verbatim>\<open>Info\<close> records line 296 of the library's own file, where it forwards to the default
  logger; the method \<^verbatim>\<open>Fatal\<close> and the package-level \<^verbatim>\<open>Fatal\<close> record line 188 of that
  file, where the method calls \<^verbatim>\<open>Critical\<close>.
\<close>

theorem wrapper_call_site:
  "Info (DefaultLogger ex_Sprintf ex_env) ex_env ''x'' [] =
     [Handle (DefaultHandler ex_Sprintf)
        \<lparr>Format = ''x\<newline>'', Args = [], LoggerName = ''svc'', Level = INFO,
         Time = ex_time, Filename = ''logging.go'', Line = 296, ProcessID = 4242,
         ProcessName = ''svc''\<rparr>]
   \<and> logger_Fatal (DefaultLogger ex_Sprintf ex_env) ex_env ''x'' [] =
     ([Handle (DefaultHandler ex_Sprintf)
        \<lparr>Format = ''x\<newline>'', Args = [], LoggerName = ''svc'', Level = CRITICAL,
         Time = ex_time, Filename = ''logging.go'', Line = 188, ProcessID = 4242,
         ProcessName = ''svc''\<rparr>,
       Close (DefaultHandler ex_Sprintf)], Exits 1)
   \<and> Fatal (DefaultLogger ex_Sprintf ex_env) ex_env ''x'' [] =
     ([Handle (DefaultHandler ex_Sprintf)
        \<lparr>Format = ''x\<newline>'', Args = [], LoggerName = ''svc'', Level = CRITICAL,
         Time = ex_time, Filename = ''logging.go'', Line = 188, ProcessID = 4242,
         ProcessName = ''svc''\<rparr>,
       Close (DefaultHandler ex_Sprintf)], Exits 1)
   \<and> in_library (''logging.go'', 296) \<and> in_library (''logging.go'', 188)
   \<and> hd (stack ex_env) = (''main.go'', 10) \<and> \<not> in_library (hd (stack ex_env))"
  by (simp add: Info_def Fatal_def logger_Info_def logger_Fatal_def logger_Critical_def
      logger_log_def logger_Close_def DefaultLogger_def NewLogger_def DefaultLevel_def
      Level_defs build_Record_def ex_env_def at_line_def runtime_Caller_def procName_def
      filepath_Base_def Let_def normalize_format_def HasSuffix_def lib_file_def
      in_library_def)


section \<open>The filter of a handler\<close>

text \<open>
  C2. \<^verbatim>\<open>FilterAndFormat\<close> returns the empty string when the record's level is greater
  than the handler's threshold, and exactly what the handler's formatter returns
  otherwise. \<^verbatim>\<open>WriterHandler.Handle\<close> writes nothing and \<^verbatim>\<open>SyslogHandler.Handle\<close> calls
  no send operation when the result is empty.
\<close>

theorem FilterAndFormat_gate:
  "(Level rec > BaseHandler_Level h \<longrightarrow> FilterAndFormat h rec = [])
   \<and> (\<not> Level rec > BaseHandler_Level h \<longrightarrow> FilterAndFormat h rec = BaseHandler_Formatter h rec)
   \<and> (FilterAndFormat (WriterHandler_Base wh) rec = [] \<longrightarrow> WriterHandler_Handle wh rec = [])
   \<and> (FilterAndFormat (SyslogHandler_Base sh) rec = [] \<longrightarrow> SyslogHandler_Handle sh rec = Inr [])"
  by (simp add: FilterAndFormat_def WriterHandler_Handle_def SyslogHandler_Handle_def)

text \<open>
  A record of level \<open>DEBUG\<close> at handlers of threshold \<open>INFO\<close> is suppressed; the same
  record at level \<open>INFO\<close> is rendered by the formatter.
\<close>

theorem FilterAndFormat_gate_witness:
  "Level ex_record > BaseHandler_Level (WriterHandler_Base ex_writer)
   \<and> FilterAndFormat (WriterHandler_Base ex_writer) ex_record = []
   \<and> WriterHandler_Handle ex_writer ex_record = []
   \<and> FilterAndFormat (SyslogHandler_Base ex_syslog) ex_record = []
   \<and> SyslogHandler_Handle ex_syslog ex_record = Inr []
   \<and> \<not> Level (ex_record\<lparr>Level := INFO\<rparr>) > BaseHandler_Level (WriterHandler_Base ex_writer)
   \<and> FilterAndFormat (WriterHandler_Base ex_writer) (ex_record\<lparr>Level := INFO\<rparr>)
       = defaultFormatter_Format ex_Sprintf (ex_record\<lparr>Level := INFO\<rparr>)"
proof -
  have W: "BaseHandler_Level (WriterHandler_Base ex_writer) = 4"
    "BaseHandler_Formatter (WriterHandler_Base ex_writer) = defaultFormatter_Format ex_Sprintf"
    by (simp_all add: ex_writer_def NewWriterHandler_def NewBaseHandler_def DefaultLevel_def INFO_def)
  have S: "BaseHandler_Level (SyslogHandler_Base ex_syslog) = 4"
    by (simp add: ex_syslog_def NewBaseHandler_def DefaultLevel_def INFO_def)
  have R: "Level ex_record = 5"
    by (simp add: ex_record_def DEBUG_def)
  have 1: "Level ex_record > BaseHandler_Level (WriterHandler_Base ex_writer)"
    by (simp add: W R)
  have 2: "Level ex_record > BaseHandler_Level (SyslogHandler_Base ex_syslog)"
    by (simp add: S R)
  have 3: "\<not> Level (ex_record\<lparr>Level := INFO\<rparr>) > BaseHandler_Level (WriterHandler_Base ex_writer)"
    by (simp add: W INFO_def)
  note a = FilterAndFormat_gate [where rec = ex_record and h = "WriterHandler_Base ex_writer"
      and wh = ex_writer and sh = ex_syslog]
  note c = FilterAndFormat_gate [where rec = ex_record and h = "SyslogHandler_Base ex_syslog"
      and wh = ex_writer and sh = ex_syslog]
  note b = FilterAndFormat_gate [where rec = "ex_record\<lparr>Level := INFO\<rparr>"
      and h = "WriterHandler_Base ex_writer" and wh = ex_writer and sh = ex_syslog]
  from a b c 1 2 3 show ?thesis by (simp add: W)
qed


section \<open>The severity switch of the syslog handler\<close>

text \<open>
  C10. For a record that passes the filter of a \<^verbatim>\<open>SyslogHandler\<close> (a non-empty
  message), \<^verbatim>\<open>Handle\<close> is free of the fault exactly when the record's level is one of
  the six named constants: for any other level the function variable is still
  \<^verbatim>\<open>nil\<close> when it is called; for each named level the one send operation called is
  the one that belongs to that level, with the message.
\<close>

theorem SyslogHandler_Handle_levels:
  assumes "FilterAndFormat (SyslogHandler_Base b) rec \<noteq> []"
  shows "(Level rec \<notin> set named_levels \<longrightarrow> SyslogHandler_Handle b rec = Inl nil_func_call)
     \<and> (\<forall>(lv, fn) \<in> set level_send. Level rec = lv \<longrightarrow>
           SyslogHandler_Handle b rec
             = Inr [(SyslogHandler_w b, fn, FilterAndFormat (SyslogHandler_Base b) rec)])
     \<and> (Level rec \<in> set named_levels \<longleftrightarrow> SyslogHandler_Handle b rec \<noteq> Inl nil_func_call)
     \<and> map fst level_send = named_levels"
proof -
  have n: "Level rec \<notin> set named_levels \<Longrightarrow> SyslogHandler_Handle b rec = Inl nil_func_call"
    using assms severity_switch_None [of "Level rec"]
    by (simp add: SyslogHandler_Handle_def)
  have y: "\<And>lv fn. (lv, fn) \<in> set level_send \<Longrightarrow> Level rec = lv \<Longrightarrow>
      SyslogHandler_Handle b rec
        = Inr [(SyslogHandler_w b, fn, FilterAndFormat (SyslogHandler_Base b) rec)]"
    using assms by (simp add: SyslogHandler_Handle_def severity_switch_named)
  have s: "Level rec \<in> set named_levels \<Longrightarrow> SyslogHandler_Handle b rec \<noteq> Inl nil_func_call"
    using assms severity_switch_None [of "Level rec"]
    by (auto simp: SyslogHandler_Handle_def split: option.splits)
  have m: "map fst level_send = named_levels"
    by (simp add: level_send_def named_levels_def)
  from n y s m show ?thesis by blast
qed

text \<open>
  At threshold \<open>INFO\<close>, a record of level \<open>WARNING\<close> is sent with \<^verbatim>\<open>Warning\<close>, and a
  record of level \<open>-1\<close> faults.
\<close>

theorem SyslogHandler_Handle_levels_witness:
  "FilterAndFormat (SyslogHandler_Base ex_syslog) (ex_record\<lparr>Level := WARNING\<rparr>) \<noteq> []
   \<and> (WARNING, w_Warning) \<in> set level_send
   \<and> SyslogHandler_Handle ex_syslog (ex_record\<lparr>Level := WARNING\<rparr>)
       = Inr [(3, w_Warning, ''2014-02-28 18:15:57 [svc] WARNING  up\<newline>'')]
   \<and> FilterAndFormat (SyslogHandler_Base ex_syslog) (ex_record\<lparr>Level := - 1\<rparr>) \<noteq> []
   \<and> - 1 \<notin> set named_levels
   \<and> SyslogHandler_Handle ex_syslog (ex_record\<lparr>Level := - 1\<rparr>) = Inl nil_func_call"
proof -
  have T: "Time (ex_record\<lparr>Level := lv\<rparr>) = ex_time" for lv
    by (simp add: ex_record_def)
  have D: "defaultFormatter_Format ex_Sprintf (ex_record\<lparr>Level := lv\<rparr>)
            = spec_line ex_Sprintf (ex_record\<lparr>Level := lv\<rparr>)" for lv
    using defaultFormatter_layout_aux [of "ex_record\<lparr>Level := lv\<rparr>" ex_Sprintf]
    by (simp add: T valid_ex_time)
  have B: "SyslogHandler_Base ex_syslog
            = \<lparr>BaseHandler_Level = 4, BaseHandler_Formatter = defaultFormatter_Format ex_Sprintf\<rparr>"
    "SyslogHandler_w ex_syslog = 3"
    by (simp_all add: ex_syslog_def NewBaseHandler_def DefaultLevel_def INFO_def)
  have FW: "FilterAndFormat (SyslogHandler_Base ex_syslog) (ex_record\<lparr>Level := WARNING\<rparr>)
             = ''2014-02-28 18:15:57 [svc] WARNING  up\<newline>''"
    by (simp add: FilterAndFormat_def B D spec_line_ex_record)
       (simp add: WARNING_def LevelNames_index_def LevelNames_def Level_defs left_justified_def)
  have FN: "FilterAndFormat (SyslogHandler_Base ex_syslog) (ex_record\<lparr>Level := - 1\<rparr>) \<noteq> []"
    by (simp add: FilterAndFormat_def B D spec_line_ex_record)
  have M: "(WARNING, w_Warning) \<in> set level_send"
    by (simp add: level_send_def)
  have N: "- 1 \<notin> set named_levels"
    by (simp add: named_levels_iff)
  have FW': "FilterAndFormat (SyslogHandler_Base ex_syslog) (ex_record\<lparr>Level := WARNING\<rparr>) \<noteq> []"
    by (simp add: FW)
  have L: "Level (ex_record\<lparr>Level := WARNING\<rparr>) = WARNING"
    by simp
  from SyslogHandler_Handle_levels [OF FW']
  have "\<forall>(lv, fn) \<in> set level_send. Level (ex_record\<lparr>Level := WARNING\<rparr>) = lv \<longrightarrow>
           SyslogHandler_Handle ex_syslog (ex_record\<lparr>Level := WARNING\<rparr>)
             = Inr [(SyslogHandler_w ex_syslog, fn,
                     FilterAndFormat (SyslogHandler_Base ex_syslog)
                       (ex_record\<lparr>Level := WARNING\<rparr>))]"
    by blast
  with M L have 1: "SyslogHandler_Handle ex_syslog (ex_record\<lparr>Level := WARNING\<rparr>)
       = Inr [(3, w_Warning, ''2014-02-28 18:15:57 [svc] WARNING  up\<newline>'')]"
    unfolding FW B(2) by blast
  from SyslogHandler_Handle_levels [OF FN] N
  have 2: "SyslogHandler_Handle ex_syslog (ex_record\<lparr>Level := - 1\<rparr>) = Inl nil_func_call"
    by simp
  from FW' M 1 FN N 2 show ?thesis by blast
qed


section \<open>The cascade of a multi handler\<close>

text \<open>
  C6. \<^verbatim>\<open>SetLevel(L)\<close> on a \<^verbatim>\<open>MultiHandler\<close> keeps the list of children and sets the
  threshold of every child to \<open>L\<close>: a writer or syslog child is the same handler with
  threshold \<open>L\<close>, and every threshold held anywhere below the multi handler is \<open>L\<close>
  afterwards, whatever it was (setting \<open>L'\<close> first makes no difference); formatters
  and everything else stay as they were. \<^verbatim>\<open>SetFormatter(F)\<close> does the same for the
  formatter. The multi handler holds nothing but its children: its setters change
  the children only.
\<close>

theorem MultiHandler_cascade:
  "(let hsL = MultiHandler_SetLevel L hs; hsF = MultiHandler_SetFormatter F hs in
      length hsL = length hs \<and> length hsF = length hs
    \<and> (\<forall>i < length hs. \<forall>b. hs ! i = Writer b \<longrightarrow>
          hsL ! i = Writer (b\<lparr>WriterHandler_Base :=
                               (WriterHandler_Base b)\<lparr>BaseHandler_Level := L\<rparr>\<rparr>)
          \<and> hsF ! i = Writer (b\<lparr>WriterHandler_Base :=
                               (WriterHandler_Base b)\<lparr>BaseHandler_Formatter := F\<rparr>\<rparr>))
    \<and> (\<forall>i < length hs. \<forall>b. hs ! i = Syslog b \<longrightarrow>
          hsL ! i = Syslog (b\<lparr>SyslogHandler_Base :=
                               (SyslogHandler_Base b)\<lparr>BaseHandler_Level := L\<rparr>\<rparr>)
          \<and> hsF ! i = Syslog (b\<lparr>SyslogHandler_Base :=
                               (SyslogHandler_Base b)\<lparr>BaseHandler_Formatter := F\<rparr>\<rparr>))
    \<and> (\<forall>h \<in> set hsL. \<forall>t \<in> set (thresholds h). t = L)
    \<and> (\<forall>h \<in> set hsF. \<forall>f \<in> set (formatters h). f = F)
    \<and> map formatters hsL = map formatters hs \<and> map skeleton hsL = map skeleton hs
    \<and> map thresholds hsF = map thresholds hs \<and> map skeleton hsF = map skeleton hs
    \<and> MultiHandler_SetLevel L (MultiHandler_SetLevel L' hs) = hsL
    \<and> MultiHandler_SetFormatter F (MultiHandler_SetFormatter F' hs) = hsF
    \<and> Handler_SetLevel L (MultiHandler hs) = MultiHandler hsL
    \<and> Handler_SetFormatter F (MultiHandler hs) = MultiHandler hsF)"
  unfolding Let_def
  by (intro conjI cascade_length cascade_Writer cascade_Syslog cascade_all_thresholds
      cascade_all_formatters cascade_SetLevel_rest cascade_SetFormatter_rest
      cascade_overwrites cascade_children_only)

text \<open>
  Three children with thresholds \<open>INFO\<close>, \<open>DEBUG\<close> and (one level down) \<open>INFO\<close> all hold
  \<open>WARNING\<close> after \<^verbatim>\<open>SetLevel(WARNING)\<close>.
\<close>

theorem MultiHandler_cascade_witness:
  "0 < length ex_children \<and> ex_children ! 0 = Writer ex_writer
   \<and> MultiHandler_SetLevel WARNING ex_children ! 0 =
       Writer (ex_writer\<lparr>WriterHandler_Base :=
                 (WriterHandler_Base ex_writer)\<lparr>BaseHandler_Level := WARNING\<rparr>\<rparr>)
   \<and> MultiHandler_SetFormatter Format ex_children ! 0 =
       Writer (ex_writer\<lparr>WriterHandler_Base :=
                 (WriterHandler_Base ex_writer)\<lparr>BaseHandler_Formatter := Format\<rparr>\<rparr>)
   \<and> map thresholds ex_children = [[INFO], [DEBUG], [INFO]]
   \<and> map thresholds (MultiHandler_SetLevel WARNING ex_children)
       = [[WARNING], [WARNING], [WARNING]]"
proof -
  have H: "0 < length ex_children" "ex_children ! 0 = Writer ex_writer"
    by (simp_all add: ex_children_def)
  have T: "map thresholds ex_children = [[INFO], [DEBUG], [INFO]]"
    by (simp add: ex_children_def ex_writer_def ex_syslog_def NewWriterHandler_def
        NewBaseHandler_def BaseHandler_SetLevel_def DefaultLevel_def)
  have S: "map thresholds (MultiHandler_SetLevel WARNING ex_children)
       = [[WARNING], [WARNING], [WARNING]]"
    by (simp add: ex_children_def MultiHandler_SetLevel_def BaseHandler_SetLevel_def)
  note c = MultiHandler_cascade [of WARNING ex_children Format, unfolded Let_def]
  from c have "\<forall>i < length ex_children. \<forall>b. ex_children ! i = Writer b \<longrightarrow>
      MultiHandler_SetLevel WARNING ex_children ! i =
        Writer (b\<lparr>WriterHandler_Base := (WriterHandler_Base b)\<lparr>BaseHandler_Level := WARNING\<rparr>\<rparr>)
      \<and> MultiHandler_SetFormatter Format ex_children ! i =
        Writer (b\<lparr>WriterHandler_Base := (WriterHandler_Base b)\<lparr>BaseHandler_Formatter := Format\<rparr>\<rparr>)"
    by blast
  with H T S show ?thesis by blast
qed


section \<open>The layout of a rendered line\<close>

text \<open>
  C3, as amended. For every record whose timestamp has a year from 0 to 9999, the
  default formatter renders exactly the timestamp as \<open>YYYY-MM-DD HH:MM:SS\<close> (19
  characters, nothing after the seconds), a space, the logger's name in brackets, a
  space, the level name left-justified in a field of width 8 (for the six named
  levels the entries of \<open>level_fields\<close>), a space, and \<^verbatim>\<open>fmt.Sprintf\<close> of the record's
  template and arguments; it adds nothing after the message, so a newline at the end
  of the line is the one of the template.
\<close>

theorem defaultFormatter_layout:
  assumes "valid_Time (Time rec)"
    and "0 \<le> year (Time rec)" and "year (Time rec) \<le> 9999"
  shows "defaultFormatter_Format Sprintf rec = spec_line Sprintf rec
     \<and> length (spec_timestamp (Time rec)) = 19
     \<and> length (left_justified 8 (LevelNames_index (Level rec))) = 8
     \<and> (\<forall>(lv, nm) \<in> set level_fields. Level rec = lv \<longrightarrow>
           left_justified 8 (LevelNames_index (Level rec)) = nm)"
proof -
  have "defaultFormatter_Format Sprintf rec = spec_line Sprintf rec"
    using assms by (rule defaultFormatter_layout_aux)
  moreover have "length (left_justified 8 (LevelNames_index (Level rec))) = 8"
    using length_LevelNames_index [of "Level rec"] by (simp add: left_justified_def)
  moreover have "\<forall>(lv, nm) \<in> set level_fields. Level rec = lv \<longrightarrow>
           left_justified 8 (LevelNames_index (Level rec)) = nm"
  proof (intro ballI, clarify)
    fix nm
    assume "(Level rec, nm) \<in> set level_fields"
    then show "left_justified 8 (LevelNames_index (Level rec)) = nm"
      by (rule LevelNames_index_named)
  qed
  ultimately show ?thesis
    by (simp only: length_spec_timestamp simp_thms)
qed

theorem defaultFormatter_layout_witness:
  "valid_Time (Time ex_record) \<and> 0 \<le> year (Time ex_record) \<and> year (Time ex_record) \<le> 9999
   \<and> defaultFormatter_Format ex_Sprintf ex_record
       = ''2014-02-28 18:15:57 [svc] DEBUG    up\<newline>''"
proof -
  have T: "Time ex_record = ex_time"
    by (simp add: ex_record_def)
  have V: "valid_Time (Time ex_record)" "0 \<le> year (Time ex_record)"
    "year (Time ex_record) \<le> 9999"
    unfolding T by (rule valid_ex_time)+
  have U: "ex_record\<lparr>Level := DEBUG\<rparr> = ex_record"
    by (simp add: ex_record_def)
  have P: "left_justified 8 (LevelNames_index DEBUG) = ''DEBUG   ''"
    by (rule LevelNames_index_named) (simp add: level_fields_def)
  have S: "spec_line ex_Sprintf ex_record = ''2014-02-28 18:15:57 [svc] DEBUG    up\<newline>''"
    using spec_line_ex_record [of DEBUG] unfolding U P by simp
  have E: "defaultFormatter_Format ex_Sprintf ex_record = spec_line ex_Sprintf ex_record"
    using defaultFormatter_layout [OF V, of ex_Sprintf] by (rule conjunct1)
  show ?thesis
    unfolding E S using V by (intro conjI refl)
qed

text \<open>
  In the year 10000 the year takes five characters, so the first 19 characters of
  the time end inside the seconds: the line starts \<open>10000-02-28 18:15:5\<close> and is not
  the layout.
\<close>

theorem defaultFormatter_year_counterexample:
  "valid_Time (Time (ex_record\<lparr>Time := ex_time\<lparr>year := 10000\<rparr>\<rparr>))
   \<and> defaultFormatter_Format ex_Sprintf (ex_record\<lparr>Time := ex_time\<lparr>year := 10000\<rparr>\<rparr>)
       = ''10000-02-28 18:15:5 [svc] DEBUG    up\<newline>''
   \<and> defaultFormatter_Format ex_Sprintf (ex_record\<lparr>Time := ex_time\<lparr>year := 10000\<rparr>\<rparr>)
       \<noteq> spec_line ex_Sprintf (ex_record\<lparr>Time := ex_time\<lparr>year := 10000\<rparr>\<rparr>)"
proof -
  have 1: "defaultFormatter_Format ex_Sprintf (ex_record\<lparr>Time := ex_time\<lparr>year := 10000\<rparr>\<rparr>)
       = ''10000-02-28 18:15:5 [svc] DEBUG    up\<newline>''"
    by (simp add: defaultFormatter_Format_def Sprintf_strings_layout ex_record_def ex_time_def
      Time_String_def appendInt_def digits_numeral digit_char_def left_justified_def
      LevelNames_index_def LevelNames_def Level_defs replicate_23 ex_Sprintf_plain)
  have 2: "spec_line ex_Sprintf (ex_record\<lparr>Time := ex_time\<lparr>year := 10000\<rparr>\<rparr>)
       = ''0000-02-28 18:15:57 [svc] DEBUG    up\<newline>''"
    by (simp add: spec_line_def spec_timestamp_def four_digits_def two_digits_def
      ex_record_def ex_time_def digit_char_def left_justified_def
      LevelNames_index_def LevelNames_def Level_defs replicate_23 ex_Sprintf_plain)
  have 3: "valid_Time (Time (ex_record\<lparr>Time := ex_time\<lparr>year := 10000\<rparr>\<rparr>))"
    by (simp add: valid_Time_def ex_time_def)
  show ?thesis unfolding 1 2 using 3 by simp
qed

end
